theory Spec2Isabelle
  imports Complex_Main
begin

section \<open>float64 values\<close>

text \<open>
  Go's \<^verbatim>\<open>float64\<close>. The source builds and compares non-finite values
  (\<^verbatim>\<open>math.Inf(-1)\<close>, the guard \<^verbatim>\<open>nu <= float64(dim-1)\<close>), so the two infinities and
  NaN are values of the model. Finite values are the reals: rounding, overflow of a
  finite result and the sign of zero are left out.
\<close>

datatype float64 = Fin real | PInf | NInf | NaN

text \<open>The comparisons \<^verbatim>\<open><=\<close> and \<^verbatim>\<open><\<close>: false as soon as one side is NaN.\<close>

fun fle :: "float64 \<Rightarrow> float64 \<Rightarrow> bool" where
  "fle NaN b = False"
| "fle a NaN = False"
| "fle NInf b = True"
| "fle a PInf = True"
| "fle (Fin x) (Fin y) = (x \<le> y)"
| "fle PInf b = False"
| "fle (Fin x) NInf = False"

fun flt :: "float64 \<Rightarrow> float64 \<Rightarrow> bool" where
  "flt NaN b = False"
| "flt a NaN = False"
| "flt (Fin x) (Fin y) = (x < y)"
| "flt NInf NInf = False"
| "flt NInf b = True"
| "flt PInf b = False"
| "flt (Fin x) PInf = True"
| "flt (Fin x) NInf = False"

fun fsub :: "float64 \<Rightarrow> float64 \<Rightarrow> float64" where
  "fsub NaN b = NaN"
| "fsub a NaN = NaN"
| "fsub (Fin x) (Fin y) = Fin (x - y)"
| "fsub (Fin x) PInf = NInf"
| "fsub (Fin x) NInf = PInf"
| "fsub PInf PInf = NaN"
| "fsub PInf b = PInf"
| "fsub NInf NInf = NaN"
| "fsub NInf b = NInf"

text \<open>The sign of an infinite product; zero times infinity is NaN.\<close>

definition inf_signed :: "real \<Rightarrow> float64" where
  "inf_signed s = (if 0 < s then PInf else if s < 0 then NInf else NaN)"

fun fmul :: "float64 \<Rightarrow> float64 \<Rightarrow> float64" where
  "fmul NaN b = NaN"
| "fmul a NaN = NaN"
| "fmul (Fin x) (Fin y) = Fin (x * y)"
| "fmul (Fin x) PInf = inf_signed x"
| "fmul (Fin x) NInf = inf_signed (- x)"
| "fmul PInf (Fin y) = inf_signed y"
| "fmul NInf (Fin y) = inf_signed (- y)"
| "fmul PInf PInf = PInf"
| "fmul PInf NInf = NInf"
| "fmul NInf PInf = NInf"
| "fmul NInf NInf = PInf"

text \<open>Division by the constant two, for the argument \<open>nu/2\<close> of the documented formula.\<close>

fun fhalf :: "float64 \<Rightarrow> float64" where
  "fhalf (Fin x) = Fin (x / 2)"
| "fhalf a = a"

instantiation float64 :: "{minus, times}"
begin

definition minus_float64 :: "float64 \<Rightarrow> float64 \<Rightarrow> float64" where
  "minus_float64 a b = fsub a b"

definition times_float64 :: "float64 \<Rightarrow> float64 \<Rightarrow> float64" where
  "times_float64 a b = fmul a b"

instance ..

end

text \<open>\<^verbatim>\<open>math.Sqrt\<close>, \<^verbatim>\<open>math.Exp\<close>, \<^verbatim>\<open>math.Ln2\<close> and the conversion \<^verbatim>\<open>float64(i)\<close>.\<close>

fun fsqrt :: "float64 \<Rightarrow> float64" where
  "fsqrt (Fin x) = (if x < 0 then NaN else Fin (sqrt x))"
| "fsqrt PInf = PInf"
| "fsqrt NInf = NaN"
| "fsqrt NaN = NaN"

fun fexp :: "float64 \<Rightarrow> float64" where
  "fexp (Fin x) = Fin (exp x)"
| "fexp PInf = PInf"
| "fexp NInf = Fin 0"
| "fexp NaN = NaN"

definition Ln2 :: float64 where
  "Ln2 = Fin (ln 2)"

definition float64_of_int :: "int \<Rightarrow> float64" where
  "float64_of_int i = Fin (of_int i)"

section \<open>Matrices and panics\<close>

text \<open>
  The dense, symmetric and triangular containers of \<^verbatim>\<open>mat64\<close> are lists of rows;
  \<^verbatim>\<open>Symmetric()\<close> is the order of the matrix.
\<close>

type_synonym matrix = "float64 list list"

definition Symmetric :: "matrix \<Rightarrow> int" where
  "Symmetric m = int (length m)"

definition square :: "int \<Rightarrow> matrix \<Rightarrow> bool" where
  "square n m = (Symmetric m = n \<and> list_all (\<lambda>r. int (length r) = n) m)"

text \<open>
  A panic of the source is a value: the string it is raised with, the package variable
  \<^verbatim>\<open>badDim\<close> (declared in another file of the package), the runtime's nil dereference,
  the index panic and the shape panic (\<^verbatim>\<open>matrix.ErrShape\<close>) of a container, or the panic
  of a collaborator called outside its domain.
\<close>

datatype panic = Panic string | PanicBadDim | PanicNil | PanicIndex | PanicShape | PanicDomain

section \<open>Collaborators\<close>

text \<open>
  The numerical routines of \<^verbatim>\<open>mat64\<close>, \<^verbatim>\<open>mathext\<close> and \<^verbatim>\<open>distuv\<close> are parameters
  of the model. \<open>'c\<close> is \<^verbatim>\<open>mat64.Cholesky\<close>, \<open>'p\<close> is the pointer \<^verbatim>\<open>*rand.Rand\<close> and
  \<open>'g\<close> is the memory of the random generators, which every draw reads and advances.
  A routine with a receiver that it overwrites takes the receiver first.
  \<^verbatim>\<open>Size\<close> may panic (on a factorization that holds no factor). A chi-squared draw may
  panic or never return, depending on its degrees of freedom: its value is \<open>None\<close> when
  it does not return. \<open>FromCholesky\<close> is the matrix a receiver holds after
  \<^verbatim>\<open>FromCholesky\<close> has returned; the check of the receiver is \<open>SymDense_FromCholesky\<close>.
\<close>

record ('c, 'p, 'g) collab =
  Factorize :: "matrix \<Rightarrow> 'c option"
  LogDet :: "'c \<Rightarrow> float64"
  Size :: "'c \<Rightarrow> panic + int"
  UFromCholesky :: "'c \<Rightarrow> matrix"
  SetFromU :: "'c \<Rightarrow> matrix \<Rightarrow> 'c"
  ZeroCholesky :: "'c"
  FromCholesky :: "matrix \<Rightarrow> 'c \<Rightarrow> matrix"
  SolveCholesky :: "'c \<Rightarrow> matrix \<Rightarrow> matrix option"
  TTri :: "matrix \<Rightarrow> matrix"
  Mul :: "matrix \<Rightarrow> matrix \<Rightarrow> matrix"
  Trace :: "matrix \<Rightarrow> float64"
  MulTri :: "matrix \<Rightarrow> matrix \<Rightarrow> matrix"
  MvLgamma :: "float64 \<Rightarrow> int \<Rightarrow> float64"
  ChiSquared_Rand :: "float64 \<Rightarrow> 'p \<Rightarrow> 'g \<Rightarrow> (panic + float64 \<times> 'g) option"
  Normal_Rand :: "float64 \<Rightarrow> float64 \<Rightarrow> 'p \<Rightarrow> 'g \<Rightarrow> float64 \<times> 'g"

section \<open>The Wishart distribution\<close>

text \<open>
  The struct \<^verbatim>\<open>Wishart\<close>. \<open>once\<close> is the done flag of \<^verbatim>\<open>sync.Once\<close>; the field
  \<^verbatim>\<open>v\<close> is \<open>w_v\<close>, \<open>None\<close> while it is nil.
\<close>

record ('c, 'p) Wishart =
  nu :: float64
  src :: 'p
  dim :: int
  cholv :: 'c
  logdetv :: float64
  upper :: matrix
  once :: bool
  w_v :: "matrix option"

definition NewWishart ::
  "('c, 'p, 'g) collab \<Rightarrow> matrix \<Rightarrow> float64 \<Rightarrow> 'p \<Rightarrow> panic + (('c, 'p) Wishart option \<times> bool)" where
  "NewWishart K vm nu0 src0 =
     (let dim0 = Symmetric vm in
      if fle nu0 (float64_of_int (dim0 - 1))
      then Inl (Panic ''wishart: nu must be greater than dim-1'')
      else case Factorize K vm of
             None \<Rightarrow> Inr (None, False)
           | Some chol \<Rightarrow>
               (let u = UFromCholesky K chol in
                Inr (Some \<lparr>nu = nu0, src = src0, dim = dim0, cholv = chol,
                           logdetv = LogDet K chol, upper = u,
                           once = False, w_v = None\<rparr>, True)))"

definition logProbSymChol ::
  "('c, 'p, 'g) collab \<Rightarrow> ('c, 'p) Wishart \<Rightarrow> 'c \<Rightarrow> float64" where
  "logProbSymChol K w cholX =
     (let logdetx = LogDet K cholX;
          u = UFromCholesky K cholX
      in case SolveCholesky K (cholv w) (TTri K u) of
           None \<Rightarrow> NInf
         | Some vinvx \<Rightarrow>
             (let vinvx' = Mul K vinvx u;
                  tr = Trace K vinvx';
                  fnu = nu w;
                  fdim = float64_of_int (dim w)
              in Fin (1/2) * ((fnu - fdim - Fin 1) * logdetx - tr - fnu * fdim * Ln2
                              - fnu * logdetv w)
                 - MvLgamma K (Fin (1/2) * fnu) (dim w)))"

definition LogProbSym ::
  "('c, 'p, 'g) collab \<Rightarrow> ('c, 'p) Wishart \<Rightarrow> matrix \<Rightarrow> panic + float64" where
  "LogProbSym K w x =
     (let dim0 = Symmetric x in
      if dim0 \<noteq> dim w then Inl (Panic ''dimension mismatch'')
      else case Factorize K x of
             None \<Rightarrow> Inr NInf
           | Some chol \<Rightarrow> Inr (logProbSymChol K w chol))"

definition LogProbSymChol ::
  "('c, 'p, 'g) collab \<Rightarrow> ('c, 'p) Wishart \<Rightarrow> 'c \<Rightarrow> panic + float64" where
  "LogProbSymChol K w cholX =
     (case Size K cholX of
        Inl p \<Rightarrow> Inl p
      | Inr dim0 \<Rightarrow>
          if dim0 \<noteq> dim w then Inl PanicBadDim
          else Inr (logProbSymChol K w cholX))"

definition ProbSym ::
  "('c, 'p, 'g) collab \<Rightarrow> ('c, 'p) Wishart \<Rightarrow> matrix \<Rightarrow> panic + float64" where
  "ProbSym K w x =
     (case LogProbSym K w x of Inl p \<Rightarrow> Inl p | Inr l \<Rightarrow> Inr (fexp l))"

section \<open>Containers\<close>

text \<open>
  Modelled from the spec: the matrix containers of the linear-algebra collaborator
  (fixed-order square storage with element get and set, in-place copy and in-place scale).
  \<^verbatim>\<open>NewSymDense(n, nil)\<close> and \<^verbatim>\<open>NewTriDense(n, matrix.Upper, nil)\<close> are zero matrices
  of order \<open>n\<close>; they are only called with the order of a distribution, which is
  never negative once the distribution is constructed.
\<close>

definition NewSymDense :: "int \<Rightarrow> matrix" where
  "NewSymDense n = replicate (nat n) (replicate (nat n) (Fin 0))"

definition NewTriDense :: "int \<Rightarrow> matrix" where
  "NewTriDense n = replicate (nat n) (replicate (nat n) (Fin 0))"

text \<open>\<^verbatim>\<open>x.CopySym(a)\<close> copies the leading block the two matrices share and keeps the rest.\<close>

definition CopySym :: "matrix \<Rightarrow> matrix \<Rightarrow> matrix" where
  "CopySym x a =
     (let n = min (length x) (length a) in
      map (\<lambda>i. map (\<lambda>j. if i < n \<and> j < n then a ! i ! j else x ! i ! j)
                    [0..<length (x ! i)])
          [0..<length x])"

text \<open>\<^verbatim>\<open>x.ScaleSym(f, a)\<close> multiplies every element of \<open>a\<close> by \<open>f\<close>.\<close>

definition ScaleSym :: "float64 \<Rightarrow> matrix \<Rightarrow> matrix" where
  "ScaleSym f a = map (map (\<lambda>e. f * e)) a"

text \<open>
  \<^verbatim>\<open>t.SetTri(i, j, e)\<close> on an upper-triangular matrix: an index out of range or below
  the diagonal is a panic of the container.
\<close>

definition SetTri :: "matrix \<Rightarrow> int \<Rightarrow> int \<Rightarrow> float64 \<Rightarrow> panic + matrix" where
  "SetTri t i j e =
     (if i < 0 \<or> Symmetric t \<le> i \<or> j < 0 \<or> Symmetric t \<le> j \<or> j < i then Inl PanicIndex
      else Inr (t[nat i := (t ! nat i)[nat j := e]]))"

text \<open>
  \<^verbatim>\<open>x.FromCholesky(c)\<close>: a receiver that is neither empty nor of the order of the matrix
  to store is never resized, the call panics; otherwise the receiver holds that matrix.
\<close>

definition SymDense_FromCholesky ::
  "('c, 'p, 'g) collab \<Rightarrow> matrix \<Rightarrow> 'c \<Rightarrow> panic + matrix" where
  "SymDense_FromCholesky K x c =
     (let m = FromCholesky K x c in
      if x \<noteq> [] \<and> Symmetric x \<noteq> Symmetric m then Inl PanicShape else Inr m)"

section \<open>Mean\<close>

text \<open>
  \<^verbatim>\<open>w.once.Do(f)\<close> runs \<open>f\<close> unless the flag is set, and sets the flag. A panic of
  \<open>f\<close> leaves the call, and the distribution with it.
\<close>

definition setV ::
  "('c, 'p, 'g) collab \<Rightarrow> ('c, 'p) Wishart \<Rightarrow> panic + ('c, 'p) Wishart" where
  "setV K w =
     (if once w then Inr w
      else case SymDense_FromCholesky K (NewSymDense (dim w)) (cholv w) of
             Inl p \<Rightarrow> Inl p
           | Inr m \<Rightarrow> Inr (w\<lparr>once := True, w_v := Some m\<rparr>))"

definition MeanSym ::
  "('c, 'p, 'g) collab \<Rightarrow> ('c, 'p) Wishart \<Rightarrow> matrix option \<Rightarrow>
     panic + (('c, 'p) Wishart \<times> matrix)" where
  "MeanSym K w x =
     (let x1 = (case x of None \<Rightarrow> NewSymDense (dim w) | Some m \<Rightarrow> m);
          d = Symmetric x1
      in if d \<noteq> dim w then Inl PanicBadDim
         else (case setV K w of
                 Inl p \<Rightarrow> Inl p
               | Inr w' \<Rightarrow>
                   (case w_v w' of
                      None \<Rightarrow> Inl PanicNil
                    | Some vm \<Rightarrow>
                        (let x2 = CopySym x1 vm;
                             x3 = ScaleSym (nu w') x2
                         in Inr (w', x3)))))"

section \<open>Sampling\<close>

text \<open>The field \<^verbatim>\<open>K\<close> of the \<^verbatim>\<open>distuv.ChiSquared\<close> literal built for row \<open>i\<close>.\<close>

definition RandChol_K :: "('c, 'p) Wishart \<Rightarrow> int \<Rightarrow> float64" where
  "RandChol_K w i = nu w - float64_of_int i"

text \<open>
  The sampling routines return \<open>None\<close> when they do not return, \<open>Some (Inl p)\<close> when
  they panic and \<open>Some (Inr r)\<close> when they return \<open>r\<close>.
\<close>

text \<open>The first loop of \<^verbatim>\<open>RandChol\<close>: the diagonal, from row \<open>i\<close> on.\<close>

function RandChol_diag ::
  "('c, 'p, 'g) collab \<Rightarrow> ('c, 'p) Wishart \<Rightarrow> int \<Rightarrow> matrix \<Rightarrow> 'g \<Rightarrow>
     (panic + matrix \<times> 'g) option" where
  "RandChol_diag K w i t g =
     (if i < dim w
      then (case ChiSquared_Rand K (RandChol_K w i) (src w) g of
              None \<Rightarrow> None
            | Some (Inl p) \<Rightarrow> Some (Inl p)
            | Some (Inr (c, g')) \<Rightarrow>
                (case SetTri t i i (fsqrt c) of
                   Inl p \<Rightarrow> Some (Inl p)
                 | Inr t' \<Rightarrow> RandChol_diag K w (i + 1) t' g'))
      else Some (Inr (t, g)))"
  by pat_completeness auto
termination
  by (relation "measure (\<lambda>(K, w, i, t, g). nat (dim w - i))") auto

text \<open>The inner loop of the second nest: row \<open>i\<close>, from column \<open>j\<close> on.\<close>

function RandChol_row ::
  "('c, 'p, 'g) collab \<Rightarrow> ('c, 'p) Wishart \<Rightarrow> int \<Rightarrow> int \<Rightarrow> matrix \<Rightarrow> 'g \<Rightarrow>
     (panic + matrix \<times> 'g) option" where
  "RandChol_row K w i j t g =
     (if j < dim w
      then (case Normal_Rand K (Fin 0) (Fin 1) (src w) g of
              (e, g') \<Rightarrow>
                (case SetTri t i j e of
                   Inl p \<Rightarrow> Some (Inl p)
                 | Inr t' \<Rightarrow> RandChol_row K w i (j + 1) t' g'))
      else Some (Inr (t, g)))"
  by pat_completeness auto
termination
  by (relation "measure (\<lambda>(K, w, i, j, t, g). nat (dim w - j))") auto

text \<open>The outer loop of the second nest, from row \<open>i\<close> on.\<close>

function RandChol_offdiag ::
  "('c, 'p, 'g) collab \<Rightarrow> ('c, 'p) Wishart \<Rightarrow> int \<Rightarrow> matrix \<Rightarrow> 'g \<Rightarrow>
     (panic + matrix \<times> 'g) option" where
  "RandChol_offdiag K w i t g =
     (if i < dim w
      then (case RandChol_row K w i (i + 1) t g of
              None \<Rightarrow> None
            | Some (Inl p) \<Rightarrow> Some (Inl p)
            | Some (Inr (t', g')) \<Rightarrow> RandChol_offdiag K w (i + 1) t' g')
      else Some (Inr (t, g)))"
  by pat_completeness auto
termination
  by (relation "measure (\<lambda>(K, w, i, t, g). nat (dim w - i))") auto

definition RandChol ::
  "('c, 'p, 'g) collab \<Rightarrow> ('c, 'p) Wishart \<Rightarrow> 'c option \<Rightarrow> 'g \<Rightarrow>
     (panic + 'c \<times> 'g) option" where
  "RandChol K w c g =
     (let t = NewTriDense (dim w) in
      case RandChol_diag K w 0 t g of
        None \<Rightarrow> None
      | Some (Inl p) \<Rightarrow> Some (Inl p)
      | Some (Inr (t1, g1)) \<Rightarrow>
          (case RandChol_offdiag K w 0 t1 g1 of
             None \<Rightarrow> None
           | Some (Inl p) \<Rightarrow> Some (Inl p)
           | Some (Inr (t2, g2)) \<Rightarrow>
               (let t3 = MulTri K t2 (upper w);
                    c' = (case c of None \<Rightarrow> ZeroCholesky K | Some c0 \<Rightarrow> c0)
                in Some (Inr (SetFromU K c' t3, g2)))))"

definition RandSym ::
  "('c, 'p, 'g) collab \<Rightarrow> ('c, 'p) Wishart \<Rightarrow> matrix option \<Rightarrow> 'g \<Rightarrow>
     (panic + matrix \<times> 'g) option" where
  "RandSym K w x g =
     (let x' = (case x of None \<Rightarrow> [] | Some m \<Rightarrow> m) in
      case RandChol K w (Some (ZeroCholesky K)) g of
        None \<Rightarrow> None
      | Some (Inl p) \<Rightarrow> Some (Inl p)
      | Some (Inr (c, g')) \<Rightarrow>
          (case SymDense_FromCholesky K x' c of
             Inl p \<Rightarrow> Some (Inl p)
           | Inr m \<Rightarrow> Some (Inr (m, g'))))"

section \<open>Operations as steps on the distribution and the generators\<close>

text \<open>
  Every method has a pointer receiver. A call is a step from the distribution and the
  generators' memory to their values after the call; only \<^verbatim>\<open>MeanSym\<close> assigns to a
  field of the receiver (through \<^verbatim>\<open>setV\<close>), and only the sampling methods draw.
  A call that panics or does not return takes no step.
\<close>

datatype 'c operation =
    MeanSym_call "matrix option"
  | ProbSym_call matrix
  | LogProbSym_call matrix
  | LogProbSymChol_call 'c
  | RandChol_call "'c option"
  | RandSym_call "matrix option"

fun call ::
  "('c, 'p, 'g) collab \<Rightarrow> 'c operation \<Rightarrow> ('c, 'p) Wishart \<times> 'g \<Rightarrow>
     (panic + ('c, 'p) Wishart \<times> 'g) option" where
  "call K (MeanSym_call x) (w, g) =
     (case MeanSym K w x of Inl p \<Rightarrow> Some (Inl p) | Inr (w', r) \<Rightarrow> Some (Inr (w', g)))"
| "call K (ProbSym_call x) (w, g) =
     (case ProbSym K w x of Inl p \<Rightarrow> Some (Inl p) | Inr r \<Rightarrow> Some (Inr (w, g)))"
| "call K (LogProbSym_call x) (w, g) =
     (case LogProbSym K w x of Inl p \<Rightarrow> Some (Inl p) | Inr r \<Rightarrow> Some (Inr (w, g)))"
| "call K (LogProbSymChol_call c) (w, g) =
     (case LogProbSymChol K w c of Inl p \<Rightarrow> Some (Inl p) | Inr r \<Rightarrow> Some (Inr (w, g)))"
| "call K (RandChol_call c) (w, g) =
     (case RandChol K w c g of
        None \<Rightarrow> None
      | Some (Inl p) \<Rightarrow> Some (Inl p)
      | Some (Inr (r, g')) \<Rightarrow> Some (Inr (w, g')))"
| "call K (RandSym_call x) (w, g) =
     (case RandSym K w x g of
        None \<Rightarrow> None
      | Some (Inl p) \<Rightarrow> Some (Inl p)
      | Some (Inr (r, g')) \<Rightarrow> Some (Inr (w, g')))"

fun calls ::
  "('c, 'p, 'g) collab \<Rightarrow> 'c operation list \<Rightarrow> ('c, 'p) Wishart \<times> 'g \<Rightarrow>
     (panic + ('c, 'p) Wishart \<times> 'g) option" where
  "calls K [] s = Some (Inr s)"
| "calls K (m # ms) s =
     (case call K m s of
        None \<Rightarrow> None
      | Some (Inl p) \<Rightarrow> Some (Inl p)
      | Some (Inr s') \<Rightarrow> calls K ms s')"

section \<open>The documented behaviour\<close>

text \<open>
  The closed form of the log-density as the specification writes it, with the
  multivariate log-gamma function taking the order first and the argument \<open>nu/2\<close>.
\<close>

definition spec_logDensity ::
  "float64 \<Rightarrow> int \<Rightarrow> float64 \<Rightarrow> float64 \<Rightarrow> float64 \<Rightarrow> (int \<Rightarrow> float64 \<Rightarrow> float64) \<Rightarrow> float64" where
  "spec_logDensity nu0 d logDetX tr logDetV multivariateLogGamma =
     Fin (1/2) * ((nu0 - float64_of_int d - Fin 1) * logDetX - tr
                  - nu0 * float64_of_int d * Ln2 - nu0 * logDetV)
     - multivariateLogGamma d (fhalf nu0)"

text \<open>The class of panics the specification calls a dimension mismatch.\<close>

definition DimensionMismatch :: "panic \<Rightarrow> bool" where
  "DimensionMismatch p = (p = PanicBadDim \<or> p = Panic ''dimension mismatch'')"









section \<open>A concrete instance of the collaborators\<close>

text \<open>
  To run the model on concrete inputs: linear algebra on diagonal matrices, where the
  Cholesky factor is the square root of the diagonal and the solve divides each row by
  the diagonal entry, and generators that read their draws off a tape. A matrix that is
  not diagonal with a positive finite diagonal is outside this instance and is reported
  as not factorizable. The solve reports failure when the condition number of the
  factorized matrix exceeds \<open>10\<^sup>1\<^sup>6\<close>; the order of a factorization that holds no
  factor is a panic; a chi-squared draw panics when its degrees of freedom are NaN or
  not positive and does not return when they are infinite.
\<close>

fun fadd :: "float64 \<Rightarrow> float64 \<Rightarrow> float64" where
  "fadd NaN b = NaN"
| "fadd a NaN = NaN"
| "fadd (Fin x) (Fin y) = Fin (x + y)"
| "fadd (Fin x) b = b"
| "fadd PInf NInf = NaN"
| "fadd NInf PInf = NaN"
| "fadd a b = a"

fun fln :: "float64 \<Rightarrow> float64" where
  "fln (Fin x) = (if x < 0 then NaN else if x = 0 then NInf else Fin (ln x))"
| "fln PInf = PInf"
| "fln NInf = NaN"
| "fln NaN = NaN"

fun fdiv :: "float64 \<Rightarrow> float64 \<Rightarrow> float64" where
  "fdiv NaN b = NaN"
| "fdiv a NaN = NaN"
| "fdiv (Fin x) (Fin y) = (if y = 0 then inf_signed x else Fin (x / y))"
| "fdiv (Fin x) b = Fin 0"
| "fdiv PInf (Fin y) = (if y < 0 then NInf else PInf)"
| "fdiv NInf (Fin y) = (if y < 0 then PInf else NInf)"
| "fdiv a b = NaN"

definition fsum :: "float64 list \<Rightarrow> float64" where
  "fsum xs = foldl fadd (Fin 0) xs"

definition mat_mul :: "matrix \<Rightarrow> matrix \<Rightarrow> matrix" where
  "mat_mul a b = map (\<lambda>r. map (\<lambda>c. fsum (map2 (\<lambda>x y. x * y) r c)) (transpose b)) a"

definition mat_diag :: "matrix \<Rightarrow> float64 list" where
  "mat_diag m = map (\<lambda>i. m ! i ! i) [0..<length m]"

definition pos_diag :: "matrix \<Rightarrow> bool" where
  "pos_diag m =
     (list_all (\<lambda>r. length r = length m) m \<and>
      list_all (\<lambda>i. list_all (\<lambda>j. if i = j then flt (Fin 0) (m ! i ! j) \<and> m ! i ! j \<noteq> PInf
                                    else m ! i ! j = Fin 0)
                              [0..<length m])
               [0..<length m])"

definition tape_draw :: "float64 list \<Rightarrow> float64 \<times> float64 list" where
  "tape_draw g = (case g of [] \<Rightarrow> (Fin 1, []) | e # es \<Rightarrow> (e, es))"

definition ill_conditioned :: "matrix \<Rightarrow> bool" where
  "ill_conditioned c =
     list_ex (\<lambda>a. list_ex (\<lambda>b. flt (Fin (10 ^ 16) * (b * b)) (a * a)) (mat_diag c))
             (mat_diag c)"

definition chi_tape :: "float64 \<Rightarrow> float64 list \<Rightarrow> (panic + float64 \<times> float64 list) option" where
  "chi_tape k g =
     (case k of
        NaN \<Rightarrow> Some (Inl PanicDomain)
      | PInf \<Rightarrow> None
      | NInf \<Rightarrow> Some (Inl PanicDomain)
      | Fin x \<Rightarrow> if x \<le> 0 then Some (Inl PanicDomain) else Some (Inr (tape_draw g)))"

definition diag_collab :: "(matrix, nat, float64 list) collab" where
  "diag_collab =
     \<lparr>Factorize = (\<lambda>m. if pos_diag m then Some (map (map fsqrt) m) else None),
      LogDet = (\<lambda>c. fsum (map (\<lambda>e. Fin 2 * fln e) (mat_diag c))),
      Size = (\<lambda>c. if c = [] then Inl PanicDomain else Inr (int (length c))),
      UFromCholesky = (\<lambda>c. c),
      SetFromU = (\<lambda>c t. t),
      ZeroCholesky = [],
      FromCholesky = (\<lambda>x c. mat_mul (transpose c) c),
      SolveCholesky =
        (\<lambda>c b. if ill_conditioned c then None
               else Some (map2 (\<lambda>e r. map (\<lambda>y. fdiv y (e * e)) r) (mat_diag c) b)),
      TTri = transpose,
      Mul = mat_mul,
      Trace = (\<lambda>m. fsum (mat_diag m)),
      MulTri = mat_mul,
      MvLgamma = (\<lambda>a d. if a = Fin 1 \<and> d = 1 then Fin 0
                       else if a = Fin (3 / 2) \<and> d = 2 then Fin (ln (pi / 2))
                       else NaN),
      ChiSquared_Rand = (\<lambda>k p g. chi_tape k g),
      Normal_Rand = (\<lambda>mu sigma p g. tape_draw g)\<rparr>"

text \<open>
  Concrete distributions of order one over the matrix \<open>[[1]]\<close>: with two degrees of
  freedom, and with NaN degrees of freedom.
\<close>

definition w_two :: "(matrix, nat) Wishart" where
  "w_two = \<lparr>nu = Fin 2, src = 0, dim = 1, cholv = [[Fin 1]], logdetv = Fin 0,
             upper = [[Fin 1]], once = False, w_v = None\<rparr>"


text \<open>The instance with a solve that reports failure.\<close>

definition failing_solve :: "(matrix, nat, float64 list) collab" where
  "failing_solve = diag_collab\<lparr>SolveCholesky := (\<lambda>c b. None)\<rparr>"

text \<open>The same with infinitely many degrees of freedom, which passes the guard.\<close>

definition w_inf :: "(matrix, nat) Wishart" where
  "w_inf = \<lparr>nu = PInf, src = 0, dim = 1, cholv = [[Fin 1]], logdetv = Fin 0,
             upper = [[Fin 1]], once = False, w_v = None\<rparr>"

text \<open>A distribution of order two over the identity matrix, with three degrees of freedom.\<close>

definition w_id2 :: "(matrix, nat) Wishart" where
  "w_id2 = \<lparr>nu = Fin 3, src = 0, dim = 2, cholv = [[Fin 1, Fin 0], [Fin 0, Fin 1]],
             logdetv = Fin 0, upper = [[Fin 1, Fin 0], [Fin 0, Fin 1]],
             once = False, w_v = None\<rparr>"

text \<open>
  A positive-definite matrix of order two with condition number \<open>10\<^sup>2\<^sup>0\<close>, and the
  distribution over it with three degrees of freedom.
\<close>

definition tiny :: real where
  "tiny = 1 / 10 ^ 10"

definition v_ill :: matrix where
  "v_ill = [[Fin 1, Fin 0], [Fin 0, Fin (tiny * tiny)]]"

definition w_ill :: "(matrix, nat) Wishart" where
  "w_ill = \<lparr>nu = Fin 3, src = 0, dim = 2, cholv = [[Fin 1, Fin 0], [Fin 0, Fin tiny]],
             logdetv = Fin (2 * ln tiny), upper = [[Fin 1, Fin 0], [Fin 0, Fin tiny]],
             once = False, w_v = None\<rparr>"

text \<open>A factorization of order three, passed to \<^verbatim>\<open>RandChol\<close> as its buffer.\<close>

definition chol3 :: matrix where
  "chol3 = [[Fin 1, Fin 0, Fin 0], [Fin 0, Fin 1, Fin 0], [Fin 0, Fin 0, Fin 1]]"

declare RandChol_diag.simps [simp del]
declare RandChol_row.simps [simp del]
declare RandChol_offdiag.simps [simp del]

section \<open>Evaluation of the instance\<close>

lemmas instance_defs =
  diag_collab_def failing_solve_def pos_diag_def fsum_def mat_diag_def mat_mul_def
  ill_conditioned_def chi_tape_def tape_draw_def Symmetric_def float64_of_int_def minus_float64_def times_float64_def
  inf_signed_def Ln2_def

lemma NewWishart_w_two: "NewWishart diag_collab [[Fin 1]] (Fin 2) 0 = Inr (Some w_two, True)"
  by (simp add: NewWishart_def instance_defs w_two_def)


lemma Factorize_one: "Factorize diag_collab [[Fin 1]] = Some [[Fin 1]]"
  by (simp add: instance_defs)

lemma Factorize_indefinite:
  "Factorize diag_collab [[Fin 1, Fin 2], [Fin 2, Fin 1]] = None"
  by (simp add: instance_defs)

lemma NewWishart_w_id2:
  "NewWishart diag_collab [[Fin 1, Fin 0], [Fin 0, Fin 1]] (Fin 3) 0 = Inr (Some w_id2, True)"
  by (simp add: NewWishart_def instance_defs w_id2_def)

lemma Factorize_id2:
  "Factorize diag_collab [[Fin 1, Fin 0], [Fin 0, Fin 1]] = Some [[Fin 1, Fin 0], [Fin 0, Fin 1]]"
  by (simp add: instance_defs)

lemma tiny_pos: "0 < tiny"
  by (simp add: tiny_def)

lemma tiny_small: "10 ^ 16 * (tiny * tiny) < 1"
  by (simp add: tiny_def)

lemma NewWishart_w_ill: "NewWishart diag_collab v_ill (Fin 3) 0 = Inr (Some w_ill, True)"
  using tiny_pos by (simp add: NewWishart_def instance_defs v_ill_def w_ill_def)

lemmas run_defs =
  MeanSym_def setV_def NewSymDense_def CopySym_def ScaleSym_def LogProbSym_def
  logProbSymChol_def ProbSym_def LogProbSymChol_def RandChol_def RandSym_def
  RandChol_diag.simps RandChol_offdiag.simps RandChol_row.simps
  NewTriDense_def SetTri_def SymDense_FromCholesky_def RandChol_K_def Let_def

section \<open>Comparisons\<close>

lemma flt_not_fle: "flt a b \<Longrightarrow> \<not> fle b a"
  by (cases a; cases b) auto

lemma fle_NaN_right [simp]: "fle a NaN = False"
  by (cases a) auto

lemma flt_NaN_right [simp]: "flt a NaN = False"
  by (cases a) auto

section \<open>Construction\<close>

text \<open>
  C4. \<^verbatim>\<open>NewWishart\<close> panics when \<open>nu \<le> d - 1\<close>, whatever the factorization would
  do; when \<open>nu > d - 1\<close> and the factorization of \<open>V\<close> fails it returns \<open>(nil, false)\<close>
  and does not panic; and a distribution it returns comes with \<open>true\<close> and holds \<open>nu\<close>,
  the order, the Cholesky factor of \<open>V\<close>, its log-determinant and its upper factor.
\<close>

theorem NewWishart_outcomes:
  "(fle nu0 (float64_of_int (Symmetric vm - 1)) \<longrightarrow>
      NewWishart K vm nu0 s = Inl (Panic ''wishart: nu must be greater than dim-1''))
   \<and> (flt (float64_of_int (Symmetric vm - 1)) nu0 \<longrightarrow> Factorize K vm = None \<longrightarrow>
      NewWishart K vm nu0 s = Inr (None, False))
   \<and> (\<forall>w ok. NewWishart K vm nu0 s = Inr (Some w, ok) \<longrightarrow>
        ok \<and> \<not> fle nu0 (float64_of_int (Symmetric vm - 1))
        \<and> (\<exists>chol. Factorize K vm = Some chol
              \<and> nu w = nu0 \<and> src w = s \<and> dim w = Symmetric vm \<and> cholv w = chol
              \<and> logdetv w = LogDet K chol \<and> upper w = UFromCholesky K chol))"
proof (intro conjI impI allI)
  assume "fle nu0 (float64_of_int (Symmetric vm - 1))"
  then show "NewWishart K vm nu0 s = Inl (Panic ''wishart: nu must be greater than dim-1'')"
    by (simp add: NewWishart_def)
next
  assume "flt (float64_of_int (Symmetric vm - 1)) nu0" and "Factorize K vm = None"
  then show "NewWishart K vm nu0 s = Inr (None, False)"
    by (simp add: NewWishart_def flt_not_fle)
next
  fix w ok
  assume h: "NewWishart K vm nu0 s = Inr (Some w, ok)"
  then show "ok"
    by (auto simp: NewWishart_def Let_def split: if_splits option.splits)
  from h show "\<not> fle nu0 (float64_of_int (Symmetric vm - 1))"
    by (auto simp: NewWishart_def Let_def split: if_splits option.splits)
  from h show "\<exists>chol. Factorize K vm = Some chol
      \<and> nu w = nu0 \<and> src w = s \<and> dim w = Symmetric vm \<and> cholv w = chol
      \<and> logdetv w = LogDet K chol \<and> upper w = UFromCholesky K chol"
    by (auto simp: NewWishart_def Let_def split: if_splits option.splits)
qed

theorem NewWishart_outcomes_witness:
  "fle (Fin 0) (float64_of_int (Symmetric [[Fin 1]] - 1))
   \<and> NewWishart diag_collab [[Fin 1]] (Fin 0) (0::nat)
       = Inl (Panic ''wishart: nu must be greater than dim-1'')
   \<and> flt (float64_of_int (Symmetric [[Fin 1, Fin 2], [Fin 2, Fin 1]] - 1)) (Fin 2)
   \<and> NewWishart diag_collab [[Fin 1, Fin 2], [Fin 2, Fin 1]] (Fin 2) (0::nat) = Inr (None, False)
   \<and> NewWishart diag_collab [[Fin 1]] (Fin 2) (0::nat) = Inr (Some w_two, True)
   \<and> nu w_two = Fin 2 \<and> dim w_two = Symmetric [[Fin 1]]
   \<and> Factorize diag_collab [[Fin 1]] = Some (cholv w_two)"
proof -
  have h1: "fle (Fin 0) (float64_of_int (Symmetric [[Fin 1]] - 1))"
    by (simp add: instance_defs)
  have h2: "flt (float64_of_int (Symmetric [[Fin 1, Fin 2], [Fin 2, Fin 1]] - 1)) (Fin 2)"
    by (simp add: instance_defs)
  have c1: "NewWishart diag_collab [[Fin 1]] (Fin 0) (0::nat)
       = Inl (Panic ''wishart: nu must be greater than dim-1'')"
    using NewWishart_outcomes [of "Fin 0" "[[Fin 1]]" diag_collab 0] h1 by blast
  have c2: "NewWishart diag_collab [[Fin 1, Fin 2], [Fin 2, Fin 1]] (Fin 2) (0::nat)
       = Inr (None, False)"
    using NewWishart_outcomes [of "Fin 2" "[[Fin 1, Fin 2], [Fin 2, Fin 1]]" diag_collab 0]
      h2 Factorize_indefinite by blast
  have c3: "nu w_two = Fin 2 \<and> dim w_two = Symmetric [[Fin 1]]
       \<and> Factorize diag_collab [[Fin 1]] = Some (cholv w_two)"
    using NewWishart_outcomes [of "Fin 2" "[[Fin 1]]" diag_collab 0] NewWishart_w_two
    by fastforce
  show ?thesis using h1 h2 c1 c2 c3 NewWishart_w_two by blast
qed

section \<open>Density\<close>

text \<open>
  C5. On an input of the distribution's order, \<^verbatim>\<open>LogProbSym\<close> returns negative infinity,
  not a panic, when the factorization of the input fails; and the density computation
  returns negative infinity when the solve against the factorization of \<open>V\<close> fails,
  through each entry point.
\<close>

theorem LogProbSym_negative_infinity:
  "Symmetric x = dim w \<Longrightarrow>
     (Factorize K x = None \<longrightarrow> LogProbSym K w x = Inr NInf)
     \<and> (\<forall>cx. SolveCholesky K (cholv w) (TTri K (UFromCholesky K cx)) = None \<longrightarrow>
           logProbSymChol K w cx = NInf
           \<and> (Factorize K x = Some cx \<longrightarrow> LogProbSym K w x = Inr NInf)
           \<and> (Size K cx = Inr (dim w) \<longrightarrow> LogProbSymChol K w cx = Inr NInf))"
  by (simp add: LogProbSym_def LogProbSymChol_def logProbSymChol_def)

theorem LogProbSym_negative_infinity_witness:
  "Symmetric [[Fin (- 1)]] = dim w_two
   \<and> Factorize diag_collab [[Fin (- 1)]] = None
   \<and> LogProbSym diag_collab w_two [[Fin (- 1)]] = Inr NInf
   \<and> Symmetric [[Fin 1]] = dim w_two
   \<and> SolveCholesky failing_solve (cholv w_two)
        (TTri failing_solve (UFromCholesky failing_solve [[Fin 1]])) = None
   \<and> Factorize failing_solve [[Fin 1]] = Some [[Fin 1]]
   \<and> LogProbSym failing_solve w_two [[Fin 1]] = Inr NInf
   \<and> LogProbSymChol failing_solve w_two [[Fin 1]] = Inr NInf"
proof -
  have h1: "Symmetric [[Fin (- 1)]] = dim w_two" "Symmetric [[Fin 1]] = dim w_two"
    by (simp_all add: instance_defs w_two_def)
  have h2: "Factorize diag_collab [[Fin (- 1)]] = None"
    by (simp add: instance_defs)
  have h3: "SolveCholesky failing_solve (cholv w_two)
        (TTri failing_solve (UFromCholesky failing_solve [[Fin 1]])) = None"
    by (simp add: instance_defs)
  have h4: "Factorize failing_solve [[Fin 1]] = Some [[Fin 1]]"
    by (simp add: instance_defs)
  have h5: "Size failing_solve [[Fin 1]] = Inr (dim w_two)"
    by (simp add: instance_defs w_two_def)
  have c1: "LogProbSym diag_collab w_two [[Fin (- 1)]] = Inr NInf"
    using LogProbSym_negative_infinity [OF h1(1), of diag_collab] h2 by blast
  have c2: "LogProbSym failing_solve w_two [[Fin 1]] = Inr NInf
      \<and> LogProbSymChol failing_solve w_two [[Fin 1]] = Inr NInf"
    using LogProbSym_negative_infinity [OF h1(2), of failing_solve] h3 h4 h5 by blast
  show ?thesis using h1 h2 h3 h4 c1 c2 by blast
qed

text \<open>
  C7. When \<open>cholX\<close> is the factorization of an input \<open>X\<close> of the distribution's order,
  \<^verbatim>\<open>LogProbSymChol(cholX)\<close> and \<^verbatim>\<open>LogProbSym(X)\<close> return the same value, the one computed
  by the shared \<^verbatim>\<open>logProbSymChol\<close>.
\<close>

theorem LogProbSymChol_eq_LogProbSym:
  "Symmetric x = dim w \<Longrightarrow> Factorize K x = Some cholX \<Longrightarrow>
   Size K cholX = Inr (Symmetric x) \<Longrightarrow>
     LogProbSymChol K w cholX = LogProbSym K w x
     \<and> LogProbSym K w x = Inr (logProbSymChol K w cholX)"
  by (simp add: LogProbSym_def LogProbSymChol_def)

theorem LogProbSymChol_eq_LogProbSym_witness:
  "Symmetric [[Fin 1]] = dim w_two \<and> Factorize diag_collab [[Fin 1]] = Some [[Fin 1]]
   \<and> Size diag_collab [[Fin 1]] = Inr (Symmetric [[Fin 1]])
   \<and> LogProbSymChol diag_collab w_two [[Fin 1]] = LogProbSym diag_collab w_two [[Fin 1]]
   \<and> LogProbSym diag_collab w_two [[Fin 1]] = Inr (logProbSymChol diag_collab w_two [[Fin 1]])"
proof -
  have h1: "Symmetric [[Fin 1]] = dim w_two"
    by (simp add: instance_defs w_two_def)
  have h2: "Size diag_collab [[Fin 1]] = Inr (Symmetric [[Fin 1]])"
    by (simp add: instance_defs)
  show ?thesis
    using LogProbSymChol_eq_LogProbSym [OF h1 Factorize_one h2] h1 h2 Factorize_one by blast
qed

text \<open>
  C8, as the code has it. \<^verbatim>\<open>MeanSym\<close> on a buffer, \<^verbatim>\<open>LogProbSym\<close> (and \<^verbatim>\<open>ProbSym\<close>
  through it) on an input and \<^verbatim>\<open>LogProbSymChol\<close> on a factorization whose order is not
  the distribution's panic with a dimension mismatch and return nothing, whereas an
  input of the right order that is not positive definite is answered with negative
  infinity. A factorization that holds no factor makes \<^verbatim>\<open>Size\<close> panic first.
\<close>

theorem dimension_mismatch_panics:
  "(Symmetric b \<noteq> dim w \<longrightarrow>
      MeanSym K w (Some b) = Inl PanicBadDim \<and> DimensionMismatch PanicBadDim)
   \<and> (Symmetric x \<noteq> dim w \<longrightarrow>
      LogProbSym K w x = Inl (Panic ''dimension mismatch'')
      \<and> ProbSym K w x = Inl (Panic ''dimension mismatch'')
      \<and> DimensionMismatch (Panic ''dimension mismatch''))
   \<and> (\<forall>n. Size K c = Inr n \<longrightarrow> n \<noteq> dim w \<longrightarrow> LogProbSymChol K w c = Inl PanicBadDim)
   \<and> (\<forall>p. Size K c = Inl p \<longrightarrow> LogProbSymChol K w c = Inl p)
   \<and> (Symmetric x = dim w \<longrightarrow> Factorize K x = None \<longrightarrow> LogProbSym K w x = Inr NInf)"
  by (simp add: MeanSym_def LogProbSym_def ProbSym_def LogProbSymChol_def
      DimensionMismatch_def)

theorem dimension_mismatch_panics_witness:
  "Symmetric [[Fin 1, Fin 0], [Fin 0, Fin 1]] \<noteq> dim w_two
   \<and> MeanSym diag_collab w_two (Some [[Fin 1, Fin 0], [Fin 0, Fin 1]]) = Inl PanicBadDim
   \<and> LogProbSym diag_collab w_two [[Fin 1, Fin 0], [Fin 0, Fin 1]]
       = Inl (Panic ''dimension mismatch'')
   \<and> Size diag_collab [[Fin 1, Fin 0], [Fin 0, Fin 1]] = Inr 2 \<and> 2 \<noteq> dim w_two
   \<and> LogProbSymChol diag_collab w_two [[Fin 1, Fin 0], [Fin 0, Fin 1]] = Inl PanicBadDim
   \<and> Size diag_collab [] = Inl PanicDomain
   \<and> LogProbSymChol diag_collab w_two [] = Inl PanicDomain
   \<and> Symmetric [[Fin (- 1)]] = dim w_two \<and> Factorize diag_collab [[Fin (- 1)]] = None
   \<and> LogProbSym diag_collab w_two [[Fin (- 1)]] = Inr NInf"
proof -
  have h1: "Symmetric [[Fin 1, Fin 0], [Fin 0, Fin 1]] \<noteq> dim w_two"
    by (simp add: instance_defs w_two_def)
  have h2: "Size diag_collab [[Fin 1, Fin 0], [Fin 0, Fin 1]] = Inr 2" "2 \<noteq> dim w_two"
    by (simp_all add: instance_defs w_two_def)
  have h3: "Symmetric [[Fin (- 1)]] = dim w_two"
    by (simp add: instance_defs w_two_def)
  have h4: "Factorize diag_collab [[Fin (- 1)]] = None"
    by (simp add: instance_defs)
  have h5: "Size diag_collab [] = Inl PanicDomain"
    by (simp add: instance_defs)
  have c1: "MeanSym diag_collab w_two (Some [[Fin 1, Fin 0], [Fin 0, Fin 1]]) = Inl PanicBadDim
      \<and> LogProbSym diag_collab w_two [[Fin 1, Fin 0], [Fin 0, Fin 1]]
          = Inl (Panic ''dimension mismatch'')
      \<and> LogProbSymChol diag_collab w_two [[Fin 1, Fin 0], [Fin 0, Fin 1]] = Inl PanicBadDim"
    using dimension_mismatch_panics [of "[[Fin 1, Fin 0], [Fin 0, Fin 1]]" w_two diag_collab
        "[[Fin 1, Fin 0], [Fin 0, Fin 1]]" "[[Fin 1, Fin 0], [Fin 0, Fin 1]]"] h1 h2
    by blast
  have c2: "LogProbSym diag_collab w_two [[Fin (- 1)]] = Inr NInf
      \<and> LogProbSymChol diag_collab w_two [] = Inl PanicDomain"
    using dimension_mismatch_panics [of "[[Fin 1]]" w_two diag_collab "[[Fin (- 1)]]" "[]"]
      h3 h4 h5 by blast
  show ?thesis using h1 h2 h3 h4 h5 c1 c2 by blast
qed

text \<open>
  Not every buffer of another order is refused: \<^verbatim>\<open>RandChol\<close> does not look at the order
  of the factorization it is given. On a distribution of order two, a factorization of
  order three comes back holding the sampled factor of order two, with no panic.
\<close>

theorem RandChol_buffer_counterexample:
  "Size diag_collab chol3 = Inr 3 \<and> dim w_id2 = 2
   \<and> RandChol diag_collab w_id2 (Some chol3) [Fin 4, Fin 1, Fin 5]
       = Some (Inr ([[Fin 2, Fin 5], [Fin 0, Fin 1]], []))
   \<and> Size diag_collab [[Fin 2, Fin 5], [Fin 0, Fin 1]] = Inr 2"
  by (simp add: run_defs instance_defs w_id2_def chol3_def numeral_2_eq_2)

section \<open>The log-density formula\<close>

lemma half_times: "Fin (1/2) * a = fhalf a"
  by (cases a) (simp_all add: times_float64_def inf_signed_def)

text \<open>
  C1, as the code has it. For a constructed distribution and an input of its order whose
  factorization succeeds, whenever the solve of \<open>V Y = U\<^sup>T\<close> against the factorization of
  \<open>V\<close> returns \<open>Y\<close>, \<^verbatim>\<open>LogProbSym\<close> and \<^verbatim>\<open>logProbSymChol\<close> return the documented closed
  form, with the log-determinant of the input's factor and the trace of \<open>Y U\<close>; no
  inverse is formed.
\<close>

theorem LogProbSym_formula:
  assumes "NewWishart K vm nu0 s = Inr (Some w, ok)"
    and "Factorize K vm = Some cv"
    and "Symmetric x = Symmetric vm"
    and "Factorize K x = Some cx"
    and "SolveCholesky K cv (TTri K (UFromCholesky K cx)) = Some y"
  shows "LogProbSym K w x =
           Inr (spec_logDensity nu0 (Symmetric vm) (LogDet K cx)
                  (Trace K (Mul K y (UFromCholesky K cx))) (LogDet K cv)
                  (\<lambda>d a. MvLgamma K a d))
         \<and> logProbSymChol K w cx =
           spec_logDensity nu0 (Symmetric vm) (LogDet K cx)
                  (Trace K (Mul K y (UFromCholesky K cx))) (LogDet K cv)
                  (\<lambda>d a. MvLgamma K a d)"
proof -
  from assms(1,2) have w: "nu w = nu0" "dim w = Symmetric vm" "cholv w = cv"
      "logdetv w = LogDet K cv"
    by (auto simp: NewWishart_def Let_def split: if_splits)
  have core: "logProbSymChol K w cx =
           spec_logDensity nu0 (Symmetric vm) (LogDet K cx)
                  (Trace K (Mul K y (UFromCholesky K cx))) (LogDet K cv)
                  (\<lambda>d a. MvLgamma K a d)"
    using assms(5) by (simp add: logProbSymChol_def spec_logDensity_def Let_def w half_times [symmetric])
  moreover have "LogProbSym K w x = Inr (logProbSymChol K w cx)"
    using assms(3,4) by (simp add: LogProbSym_def w)
  ultimately show ?thesis by simp
qed

theorem LogProbSym_formula_witness:
  "NewWishart diag_collab [[Fin 1]] (Fin 2) 0 = Inr (Some w_two, True)
   \<and> Factorize diag_collab [[Fin 1]] = Some [[Fin 1]]
   \<and> Symmetric [[Fin 1]] = Symmetric [[Fin 1]]
   \<and> SolveCholesky diag_collab [[Fin 1]] (TTri diag_collab (UFromCholesky diag_collab [[Fin 1]]))
       = Some [[Fin 1]]
   \<and> LogProbSym diag_collab w_two [[Fin 1]] = Inr (Fin (- (1 / 2) - ln 2))"
proof -
  have h: "SolveCholesky diag_collab [[Fin 1]]
      (TTri diag_collab (UFromCholesky diag_collab [[Fin 1]])) = Some [[Fin 1]]"
    by (simp add: instance_defs)
  have "LogProbSym diag_collab w_two [[Fin 1]] =
      Inr (spec_logDensity (Fin 2) (Symmetric [[Fin 1]]) (LogDet diag_collab [[Fin 1]])
             (Trace diag_collab (Mul diag_collab [[Fin 1]] (UFromCholesky diag_collab [[Fin 1]])))
             (LogDet diag_collab [[Fin 1]]) (\<lambda>d a. MvLgamma diag_collab a d))"
    using LogProbSym_formula [OF NewWishart_w_two Factorize_one refl Factorize_one h] by blast
  then have "LogProbSym diag_collab w_two [[Fin 1]] = Inr (Fin (- (1 / 2) - ln 2))"
    by (simp add: spec_logDensity_def instance_defs)
  with NewWishart_w_two Factorize_one h show ?thesis by simp
qed

text \<open>
  The closed form is not returned for every positive-definite input: over a
  positive-definite \<open>V\<close> with condition number \<open>10\<^sup>2\<^sup>0\<close> the solve reports failure, and
  the log-density of the identity is negative infinity, whereas the closed form, with
  \<open>tr(V\<^sup>-\<^sup>1 X) = 1 + 10\<^sup>2\<^sup>0\<close>, is finite.
\<close>

theorem LogProbSym_formula_counterexample:
  "NewWishart diag_collab v_ill (Fin 3) 0 = Inr (Some w_ill, True)
   \<and> Symmetric [[Fin 1, Fin 0], [Fin 0, Fin 1]] = dim w_ill
   \<and> Factorize diag_collab [[Fin 1, Fin 0], [Fin 0, Fin 1]]
       = Some [[Fin 1, Fin 0], [Fin 0, Fin 1]]
   \<and> LogProbSym diag_collab w_ill [[Fin 1, Fin 0], [Fin 0, Fin 1]] = Inr NInf
   \<and> spec_logDensity (Fin 3) 2 (Fin 0) (Fin (1 + 1 / (tiny * tiny))) (Fin (2 * ln tiny))
         (\<lambda>d a. MvLgamma diag_collab a d) \<noteq> NInf"
proof -
  have "LogProbSym diag_collab w_ill [[Fin 1, Fin 0], [Fin 0, Fin 1]] = Inr NInf"
    using tiny_small by (simp add: LogProbSym_def logProbSymChol_def instance_defs w_ill_def)
  moreover have "spec_logDensity (Fin 3) 2 (Fin 0) (Fin (1 + 1 / (tiny * tiny)))
      (Fin (2 * ln tiny)) (\<lambda>d a. MvLgamma diag_collab a d) \<noteq> NInf"
    by (simp add: spec_logDensity_def instance_defs)
  moreover have "Symmetric [[Fin 1, Fin 0], [Fin 0, Fin 1]] = dim w_ill"
    by (simp add: instance_defs w_ill_def)
  ultimately show ?thesis using NewWishart_w_ill Factorize_id2 by simp
qed

section \<open>The density\<close>

lemma fexp_nonneg: "l \<noteq> NaN \<Longrightarrow> fle (Fin 0) (fexp l)"
  by (cases l) simp_all

lemma fexp_not_neg: "\<not> flt (fexp l) (Fin 0)"
  by (cases l) (simp_all add: not_less)

lemma NewWishart_w_inf: "NewWishart diag_collab [[Fin 1]] PInf 0 = Inr (Some w_inf, True)"
  by (simp add: NewWishart_def instance_defs w_inf_def)

text \<open>
  C6, as the code has it. On an input of the distribution's order \<^verbatim>\<open>ProbSym\<close> is the
  exponential of \<^verbatim>\<open>LogProbSym\<close>; it is never negative, it is at least zero whenever the
  log-density is not NaN, and it is exactly zero when the factorization of the input fails.
\<close>

theorem ProbSym_exp:
  assumes "Symmetric x = dim w"
  shows "\<exists>l. LogProbSym K w x = Inr l \<and> ProbSym K w x = Inr (fexp l)
           \<and> (l \<noteq> NaN \<longrightarrow> fle (Fin 0) (fexp l)) \<and> \<not> flt (fexp l) (Fin 0)
           \<and> (Factorize K x = None \<longrightarrow> ProbSym K w x = Inr (Fin 0))"
proof (cases "Factorize K x")
  case None
  with assms have "LogProbSym K w x = Inr NInf" by (simp add: LogProbSym_def)
  then show ?thesis by (simp add: ProbSym_def)
next
  case (Some cx)
  with assms have "LogProbSym K w x = Inr (logProbSymChol K w cx)" by (simp add: LogProbSym_def)
  then show ?thesis using Some by (simp add: ProbSym_def fexp_nonneg fexp_not_neg)
qed

theorem ProbSym_exp_witness:
  "Symmetric [[Fin (- 1)]] = dim w_two
   \<and> (\<exists>l. LogProbSym diag_collab w_two [[Fin (- 1)]] = Inr l
          \<and> ProbSym diag_collab w_two [[Fin (- 1)]] = Inr (fexp l) \<and> fle (Fin 0) (fexp l))
   \<and> ProbSym diag_collab w_two [[Fin (- 1)]] = Inr (Fin 0)"
proof -
  have h: "Symmetric [[Fin (- 1)]] = dim w_two"
    by (simp add: instance_defs w_two_def)
  have f: "Factorize diag_collab [[Fin (- 1)]] = None"
    by (simp add: instance_defs)
  from ProbSym_exp [OF h, of diag_collab] f
  obtain l where l: "LogProbSym diag_collab w_two [[Fin (- 1)]] = Inr l"
      "ProbSym diag_collab w_two [[Fin (- 1)]] = Inr (fexp l)"
      "l \<noteq> NaN \<longrightarrow> fle (Fin 0) (fexp l)"
      "ProbSym diag_collab w_two [[Fin (- 1)]] = Inr (Fin 0)"
    by blast
  from l(2,4) have "fexp l = Fin 0" by simp
  with h l show ?thesis by simp
qed

text \<open>
  The density is not at least zero on every input: with infinitely many degrees of
  freedom, accepted by the constructor, the log-density of \<open>[[1]]\<close> is NaN and so is
  the density.
\<close>

theorem ProbSym_nonneg_counterexample:
  "NewWishart diag_collab [[Fin 1]] PInf 0 = Inr (Some w_inf, True)
   \<and> flt (float64_of_int (dim w_inf - 1)) (nu w_inf)
   \<and> Symmetric [[Fin 1]] = dim w_inf
   \<and> ProbSym diag_collab w_inf [[Fin 1]] = Inr NaN
   \<and> \<not> fle (Fin 0) NaN"
  by (simp add: NewWishart_w_inf) (simp add: ProbSym_def LogProbSym_def logProbSymChol_def instance_defs w_inf_def)

section \<open>Degrees of freedom of the diagonal draws\<close>




section \<open>The frame of the operations\<close>

lemma call_frame:
  assumes "call K m (w, g) = Some (Inr (w', g'))"
  shows "w' = w \<or> ((\<exists>x. m = MeanSym_call x) \<and> \<not> once w
           \<and> w' = w\<lparr>once := True, w_v := Some (FromCholesky K (NewSymDense (dim w)) (cholv w))\<rparr>)"
  using assms
  by (cases m)
    (auto simp: MeanSym_def setV_def SymDense_FromCholesky_def Let_def
      split: sum.splits if_splits option.splits prod.splits)

lemma calls_frame_aux:
  "calls K ms (w, g) = Some (Inr (w', g')) \<Longrightarrow>
     w' = w \<or> (\<not> once w \<and> (\<exists>x. MeanSym_call x \<in> set ms)
        \<and> w' = w\<lparr>once := True, w_v := Some (FromCholesky K (NewSymDense (dim w)) (cholv w))\<rparr>)"
proof (induction ms arbitrary: w g)
  case Nil
  then show ?case by simp
next
  case (Cons m ms)
  from Cons.prems obtain w1 g1 where step: "call K m (w, g) = Some (Inr (w1, g1))"
      and rest: "calls K ms (w1, g1) = Some (Inr (w', g'))"
    by (auto split: sum.splits option.splits)
  from call_frame [OF step] Cons.IH [OF rest] show ?case
    by auto
qed

text \<open>
  C10. Whatever sequence of operations runs on a distribution, \<open>nu\<close>, \<open>src\<close>, \<open>dim\<close>,
  \<open>cholv\<close>, \<open>logdetv\<close> and \<open>upper\<close> keep their values; the distribution changes at
  most once, by the fill of the cache from the stored factor; a filled cache is never
  changed again; and without a call of \<^verbatim>\<open>MeanSym\<close> nothing changes at all.
\<close>

theorem calls_frame:
  assumes "calls K ms (w, g) = Some (Inr (w', g'))"
  shows "nu w' = nu w \<and> src w' = src w \<and> dim w' = dim w \<and> cholv w' = cholv w
         \<and> logdetv w' = logdetv w \<and> upper w' = upper w
         \<and> (once w \<longrightarrow> w' = w)
         \<and> ((\<forall>x. MeanSym_call x \<notin> set ms) \<longrightarrow> w' = w)
         \<and> (w' = w \<or> w' = w\<lparr>once := True,
               w_v := Some (FromCholesky K (NewSymDense (dim w)) (cholv w))\<rparr>)"
  using calls_frame_aux [OF assms] by auto

theorem calls_frame_witness:
  "calls diag_collab
     [LogProbSym_call [[Fin 1]], MeanSym_call None, RandChol_call None, MeanSym_call None]
     (w_two, [Fin 4, Fin 9])
     = Some (Inr (w_two\<lparr>once := True, w_v := Some [[Fin 1]]\<rparr>, [Fin 9]))
   \<and> nu (w_two\<lparr>once := True, w_v := Some [[Fin 1]]\<rparr>) = nu w_two
   \<and> upper (w_two\<lparr>once := True, w_v := Some [[Fin 1]]\<rparr>) = upper w_two
   \<and> w_two\<lparr>once := True, w_v := Some [[Fin 1]]\<rparr>
       = w_two\<lparr>once := True,
               w_v := Some (FromCholesky diag_collab (NewSymDense (dim w_two)) (cholv w_two))\<rparr>"
proof -
  have run: "calls diag_collab
     [LogProbSym_call [[Fin 1]], MeanSym_call None, RandChol_call None, MeanSym_call None]
     (w_two, [Fin 4, Fin 9])
     = Some (Inr (w_two\<lparr>once := True, w_v := Some [[Fin 1]]\<rparr>, [Fin 9]))"
    by (simp add: run_defs instance_defs w_two_def)
  have changed: "w_two\<lparr>once := True, w_v := Some [[Fin 1]]\<rparr> \<noteq> w_two"
    by (simp add: w_two_def)
  from calls_frame [OF run] changed run show ?thesis by blast
qed

section \<open>The mean\<close>

lemma square_length: "square n m \<Longrightarrow> length m = nat n"
  by (auto simp: square_def Symmetric_def)

lemma square_row: "square n m \<Longrightarrow> i < length m \<Longrightarrow> length (m ! i) = nat n"
  by (auto simp: square_def list_all_length)

lemma square_NewSymDense: "0 \<le> n \<Longrightarrow> square n (NewSymDense n)"
  by (simp add: square_def NewSymDense_def Symmetric_def list_all_length)

lemma CopySym_square:
  assumes "square n x" and "square n a"
  shows "CopySym x a = a"
proof (rule nth_equalityI)
  show "length (CopySym x a) = length a"
    using assms by (simp add: CopySym_def Let_def square_length)
next
  fix i assume "i < length (CopySym x a)"
  then have i: "i < nat n" using assms by (simp add: CopySym_def Let_def square_length)
  show "CopySym x a ! i = a ! i"
  proof (rule nth_equalityI)
    show "length (CopySym x a ! i) = length (a ! i)"
      using assms i by (simp add: CopySym_def Let_def square_length square_row)
  next
    fix j assume "j < length (CopySym x a ! i)"
    then show "CopySym x a ! i ! j = a ! i ! j"
      using assms i by (simp add: CopySym_def Let_def square_length square_row)
  qed
qed

lemma square_ScaleSym: "square n a \<Longrightarrow> square n (ScaleSym f a)"
  by (simp add: square_def ScaleSym_def Symmetric_def list_all_length)

lemma ScaleSym_nth:
  "square n a \<Longrightarrow> i < nat n \<Longrightarrow> j < nat n \<Longrightarrow> ScaleSym f a ! i ! j = f * (a ! i ! j)"
  by (simp add: ScaleSym_def square_length square_row)

text \<open>
  C3. For a constructed distribution whose factor reconstructs to a matrix \<open>V\<close> of the
  distribution's order, \<^verbatim>\<open>MeanSym\<close> on nil or on a buffer of that order returns a matrix
  of that order whose entries are \<open>nu\<close> times those of \<open>V\<close>; the call stores \<open>V\<close> in
  the cache, and a further call answers the same from the cache and leaves it as it is.
\<close>

theorem MeanSym_mean:
  assumes "NewWishart K vm nu0 s = Inr (Some w, ok)"
    and "square (dim w) (FromCholesky K (NewSymDense (dim w)) (cholv w))"
    and "x = None \<or> (\<exists>b. x = Some b \<and> square (dim w) b)"
  shows "\<exists>w' r. MeanSym K w x = Inr (w', r)
           \<and> square (dim w) r
           \<and> (\<forall>i<nat (dim w). \<forall>j<nat (dim w).
                  r ! i ! j = nu0 * (FromCholesky K (NewSymDense (dim w)) (cholv w) ! i ! j))
           \<and> w' = w\<lparr>once := True,
                     w_v := Some (FromCholesky K (NewSymDense (dim w)) (cholv w))\<rparr>
           \<and> MeanSym K w' x = Inr (w', r)"
proof -
  let ?V = "FromCholesky K (NewSymDense (dim w)) (cholv w)"
  let ?w' = "w\<lparr>once := True, w_v := Some ?V\<rparr>"
  from assms(1) have w: "nu w = nu0" "dim w = Symmetric vm" "\<not> once w"
    by (auto simp: NewWishart_def Let_def split: if_splits option.splits)
  then have d: "0 \<le> dim w" by (simp add: Symmetric_def)
  define x1 where "x1 = (case x of None \<Rightarrow> NewSymDense (dim w) | Some m \<Rightarrow> m)"
  have x1: "square (dim w) x1"
    using assms(3) d by (auto simp: x1_def square_NewSymDense)
  then have sx: "Symmetric x1 = dim w" by (simp add: square_def)
  have copy: "CopySym x1 ?V = ?V" using x1 assms(2) by (rule CopySym_square)
  have sv: "Symmetric ?V = dim w" using assms(2) by (simp add: square_def)
  have sn: "Symmetric (NewSymDense (dim w)) = dim w"
    using square_NewSymDense [OF d] by (simp add: square_def)
  have fill: "setV K w = Inr ?w'"
    using w sv sn by (simp add: setV_def SymDense_FromCholesky_def Let_def)
  have first: "MeanSym K w x = Inr (?w', ScaleSym nu0 ?V)"
    using sx w copy fill by (simp add: MeanSym_def Let_def x1_def [symmetric])
  have again: "MeanSym K ?w' x = Inr (?w', ScaleSym nu0 ?V)"
    using sx w copy by (cases x) (simp_all add: MeanSym_def setV_def Let_def x1_def)
  show ?thesis
    using first again square_ScaleSym [OF assms(2)] ScaleSym_nth [OF assms(2)]
    by simp
qed

theorem MeanSym_mean_witness:
  "NewWishart diag_collab [[Fin 1, Fin 0], [Fin 0, Fin 1]] (Fin 3) 0 = Inr (Some w_id2, True)
   \<and> square (dim w_id2) (FromCholesky diag_collab (NewSymDense (dim w_id2)) (cholv w_id2))
   \<and> square (dim w_id2) [[Fin 7, Fin 8], [Fin 8, Fin 9]]
   \<and> (\<exists>w' r. MeanSym diag_collab w_id2 (Some [[Fin 7, Fin 8], [Fin 8, Fin 9]]) = Inr (w', r)
         \<and> r ! 0 ! 0 = Fin 3 \<and> r ! 0 ! 1 = Fin 0 \<and> r ! 1 ! 0 = Fin 0 \<and> r ! 1 ! 1 = Fin 3
         \<and> w_v w' = Some [[Fin 1, Fin 0], [Fin 0, Fin 1]]
         \<and> MeanSym diag_collab w' (Some [[Fin 7, Fin 8], [Fin 8, Fin 9]]) = Inr (w', r))"
proof -
  have V: "FromCholesky diag_collab (NewSymDense (dim w_id2)) (cholv w_id2)
      = [[Fin 1, Fin 0], [Fin 0, Fin 1]]"
    by (simp add: instance_defs w_id2_def)
  have h1: "square (dim w_id2) (FromCholesky diag_collab (NewSymDense (dim w_id2)) (cholv w_id2))"
    by (simp add: V) (simp add: square_def Symmetric_def w_id2_def)
  have h2: "square (dim w_id2) [[Fin 7, Fin 8], [Fin 8, Fin 9]]"
    by (simp add: square_def Symmetric_def w_id2_def)
  have h3: "Some [[Fin 7, Fin 8], [Fin 8, Fin 9]] = None
      \<or> (\<exists>b. Some [[Fin 7, Fin 8], [Fin 8, Fin 9]] = Some b \<and> square (dim w_id2) b)"
    using h2 by simp
  have d: "nat (dim w_id2) = 2" by (simp add: w_id2_def)
  from MeanSym_mean [OF NewWishart_w_id2 h1 h3]
  obtain w' r where m: "MeanSym diag_collab w_id2 (Some [[Fin 7, Fin 8], [Fin 8, Fin 9]]) = Inr (w', r)"
    and e: "\<forall>i<nat (dim w_id2). \<forall>j<nat (dim w_id2).
        r ! i ! j = Fin 3 * (FromCholesky diag_collab (NewSymDense (dim w_id2)) (cholv w_id2) ! i ! j)"
    and c: "w' = w_id2\<lparr>once := True,
        w_v := Some (FromCholesky diag_collab (NewSymDense (dim w_id2)) (cholv w_id2))\<rparr>"
    and a: "MeanSym diag_collab w' (Some [[Fin 7, Fin 8], [Fin 8, Fin 9]]) = Inr (w', r)"
    by blast
  from e have "r ! 0 ! 0 = Fin 3 \<and> r ! 0 ! 1 = Fin 0 \<and> r ! 1 ! 0 = Fin 0 \<and> r ! 1 ! 1 = Fin 3"
    by (simp add: d V times_float64_def)
  moreover from c have "w_v w' = Some [[Fin 1, Fin 0], [Fin 0, Fin 1]]"
    by (simp add: V)
  ultimately show ?thesis using NewWishart_w_id2 h1 h2 m a by blast
qed

section \<open>Sampling by the Bartlett decomposition\<close>
















end
